theory Spec2Isabelle
  imports Complex_Main "HOL-Library.Sublist" "HOL-Library.Multiset"
begin

section \<open>Python string operations used by the reviewer pipeline\<close>

text \<open>
  Text is a list of characters. The pipeline only ever inspects ASCII characters
  (tab, space, newline, digits, parentheses, comma, minus, at-sign), so one \<open>char\<close>
  stands for one character of the text.
\<close>

datatype error =
  ValueError | IndexError | KeyError | CalledProcessError | InvalidOperation | DivisionByZero

text \<open>\<open>sub in s\<close>: substring test.\<close>

fun contains :: "string \<Rightarrow> string \<Rightarrow> bool" where
  "contains sub [] = (sub = [])"
| "contains sub (c # cs) = (prefix sub (c # cs) \<or> contains sub cs)"

text \<open>
  \<open>s.split(sep)\<close> for a non-empty separator: cut at every occurrence of \<open>sep\<close>, scanning
  from the left; the result always has at least one element. Every call in the source passes
  a literal, non-empty separator.
\<close>

function str_split :: "string \<Rightarrow> string \<Rightarrow> string list" where
  "str_split sep [] = [[]]"
| "str_split sep (c # cs) =
     (if sep \<noteq> [] \<and> prefix sep (c # cs)
      then [] # str_split sep (drop (length sep) (c # cs))
      else (let r = str_split sep cs in (c # hd r) # tl r))"
  by pat_completeness auto
termination
  by (relation "measure (\<lambda>(sep, s). length s)") (auto simp: neq_Nil_conv)

text \<open>
  \<open>s.partition(sep)\<close>: the text before the first occurrence of \<open>sep\<close>, whether it was found,
  and the text after it.
\<close>

fun str_partition :: "string \<Rightarrow> string \<Rightarrow> string \<times> bool \<times> string" where
  "str_partition sep [] = ([], False, [])"
| "str_partition sep (c # cs) =
     (if prefix sep (c # cs) then ([], True, drop (length sep) (c # cs))
      else (case str_partition sep cs of (b, f, a) \<Rightarrow> (c # b, f, a)))"

text \<open>\<open>s.split(sep, 1)\<close>: at most one cut, at the first occurrence.\<close>

definition str_split1 :: "string \<Rightarrow> string \<Rightarrow> string list" where
  "str_split1 sep s = (case str_partition sep s of (b, f, a) \<Rightarrow> if f then [b, a] else [b])"

text \<open>
  \<open>s.rpartition(sep)\<close>: cut at the last occurrence; when \<open>sep\<close> does not occur the result is
  \<open>('', '', s)\<close>.
\<close>

definition str_rpartition :: "string \<Rightarrow> string \<Rightarrow> string \<times> string \<times> string" where
  "str_rpartition sep s =
     (case str_partition (rev sep) (rev s) of
        (b, f, a) \<Rightarrow> if f then (rev a, sep, rev b) else ([], [], s))"

text \<open>\<open>sep.join(xs)\<close>.\<close>

fun str_join :: "string \<Rightarrow> string list \<Rightarrow> string" where
  "str_join sep [] = []"
| "str_join sep [x] = x"
| "str_join sep (x # y # ys) = x @ sep @ str_join sep (y # ys)"

text \<open>ASCII white space, as \<open>str.isspace\<close> classifies it: tab to carriage return,
  the four separators 28 to 31, and the space.\<close>

definition is_space :: "char \<Rightarrow> bool" where
  "is_space c = (let n = of_char c :: nat in (9 \<le> n \<and> n \<le> 13) \<or> (28 \<le> n \<and> n \<le> 32))"

definition str_lstrip :: "string \<Rightarrow> string" where
  "str_lstrip s = dropWhile is_space s"

definition str_rstrip :: "string \<Rightarrow> string" where
  "str_rstrip s = rev (dropWhile is_space (rev s))"

definition str_strip :: "string \<Rightarrow> string" where
  "str_strip s = str_rstrip (str_lstrip s)"

definition is_digit :: "char \<Rightarrow> bool" where
  "is_digit c = (let n = of_char c :: nat in 48 \<le> n \<and> n \<le> 57)"

text \<open>\<open>xs[i]\<close> raises IndexError out of range (only non-negative indices are used).\<close>

definition index :: "'a list \<Rightarrow> nat \<Rightarrow> error + 'a" where
  "index xs i = (if i < length xs then Inr (xs ! i) else Inl IndexError)"

section \<open>Running git\<close>

text \<open>
  \<open>subprocess.check_output\<close> is the only contact with the outside: it receives the argument
  vector and either raises CalledProcessError or returns the decoded standard output. It is a
  parameter of the model. \<open>run_cmd\<close> splits the command at single spaces, strips the output and
  splits it into lines.
\<close>

type_synonym check_output = "string list \<Rightarrow> error + string"

definition run_cmd :: "check_output \<Rightarrow> string \<Rightarrow> error + string list" where
  "run_cmd co cmd =
     (case co (str_split '' '' cmd) of
        Inl e \<Rightarrow> Inl e
      | Inr out \<Rightarrow> Inr (str_split [CHR 0x0A] (str_strip out)))"

definition get_git_user :: "check_output \<Rightarrow> error + string" where
  "get_git_user co =
     (case run_cmd co ''git config --get user.name'' of
        Inl e \<Rightarrow> Inl e
      | Inr ls \<Rightarrow> index ls 0)"

definition get_blame :: "check_output \<Rightarrow> string \<Rightarrow> string \<Rightarrow> string \<Rightarrow> string \<Rightarrow> error + string list" where
  "get_blame co filename start num_lines branch =
     run_cmd co (''git --no-pager blame -L '' @ start @ '',+'' @ num_lines @ '' '' @ branch
                 @ '' -- '' @ filename)"

definition get_diff_raw :: "check_output \<Rightarrow> string \<Rightarrow> error + string list" where
  "get_diff_raw co branch = run_cmd co (''git --no-pager diff --raw '' @ branch)"

text \<open>\<open>if to_name:\<close> is false for an absent and for an empty rename target.\<close>

definition get_file_diff :: "check_output \<Rightarrow> string \<Rightarrow> string option \<Rightarrow> string \<Rightarrow> error + string list" where
  "get_file_diff co from_name to_name branch =
     (case to_name of
        Some t \<Rightarrow>
          (if t \<noteq> []
           then run_cmd co (''git --no-pager diff '' @ branch @ '' -- '' @ t @ '' -- '' @ from_name)
           else run_cmd co (''git --no-pager diff '' @ branch @ '' -- '' @ from_name))
      | None \<Rightarrow> run_cmd co (''git --no-pager diff '' @ branch @ '' -- '' @ from_name))"

section \<open>Change records\<close>

record chunk =
  start_line :: string
  num_lines :: string

record blame_line =
  line_num :: string
  code_line :: string

text \<open>
  \<open>diff_info\<close> is a dictionary in the source (its key \<open>file\<close> is the field \<open>file_name\<close>). The keys set before the early return are plain
  fields, the keys that may be absent are optional. \<open>reviewers\<close> is a dictionary from author to
  the list of blamed lines; it is an association list in insertion order, which is the order
  Python iterates it in.
\<close>

record diff_info =
  line :: string
  reviewers :: "(string \<times> blame_line list) list"
  chunks :: "chunk list"
  parts :: "string list"
  raw_info :: string
  from_mode :: "string option"
  to_mode :: "string option"
  from_hash :: "string option"
  to_hash :: "string option"
  type_info :: "string option"
  type :: "string option"
  file_name :: "string option"
  to_file :: "string option"

definition read_diff_raw_line :: "string \<Rightarrow> error + diff_info" where
  "read_diff_raw_line li =
     (let ps = str_split [CHR 0x09] li;
          ri = hd ps;
          d0 = \<lparr>line = li, reviewers = [], chunks = [], parts = ps, raw_info = ri,
                from_mode = None, to_mode = None, from_hash = None, to_hash = None,
                type_info = None, type = None, file_name = None, to_file = None\<rparr>
      in if ri = [] then Inr d0
         else (case str_split '' '' ri of
                 [fm, tm, fh, th, ti] \<Rightarrow>
                   (case ti of
                      [] \<Rightarrow> Inl IndexError
                    | t # _ \<Rightarrow>
                       (case index ps 1 of
                          Inl e \<Rightarrow> Inl e
                        | Inr f \<Rightarrow>
                            Inr (d0\<lparr>from_mode := Some fm, to_mode := Some tm, from_hash := Some fh,
                                    to_hash := Some th, type_info := Some ti, type := Some [t],
                                    file_name := Some f,
                                    to_file := (if length ps > 2 then Some (ps ! 2) else None)\<rparr>)))
               | _ \<Rightarrow> Inl ValueError))"

section \<open>Chunk extraction\<close>

text \<open>
  One line of the diff that contains \<open>@@\<close>:
  \<open>line.split("@@")[1].split(" ")[1][1:]\<close>, then the split at the comma, unpacked into
  exactly two names.
\<close>

definition hunk_chunk :: "string \<Rightarrow> error + chunk" where
  "hunk_chunk li =
     (case index (str_split ''@@'' li) 1 of
        Inl e \<Rightarrow> Inl e
      | Inr mid \<Rightarrow>
         (case index (str_split '' '' mid) 1 of
            Inl e \<Rightarrow> Inl e
          | Inr tok \<Rightarrow>
             (case str_split '','' (drop 1 tok) of
                [s, n] \<Rightarrow> Inr \<lparr>start_line = s, num_lines = n\<rparr>
              | _ \<Rightarrow> Inl ValueError)))"

text \<open>The loop over the diff lines: lines without \<open>@@\<close> are passed over.\<close>

fun code_chunks :: "string list \<Rightarrow> chunk list \<Rightarrow> error + chunk list" where
  "code_chunks [] acc = Inr acc"
| "code_chunks (li # ls) acc =
     (if \<not> contains ''@@'' li then code_chunks ls acc
      else (case hunk_chunk li of
              Inl e \<Rightarrow> Inl e
            | Inr c \<Rightarrow> code_chunks ls (acc @ [c])))"

definition get_code_chunks :: "check_output \<Rightarrow> diff_info \<Rightarrow> string \<Rightarrow> error + diff_info" where
  "get_code_chunks co d branch =
     (case file_name d of
        None \<Rightarrow> Inl KeyError
      | Some f \<Rightarrow>
         (case get_file_diff co f (to_file d) branch of
            Inl e \<Rightarrow> Inl e
          | Inr diff \<Rightarrow>
             (case code_chunks diff [] of
                Inl e \<Rightarrow> Inl e
              | Inr cs \<Rightarrow> Inr (d\<lparr>chunks := cs\<rparr>))))"

section \<open>Blame correlation\<close>

text \<open>
  The pattern \<open>^[0-9]{4}\-[0-9]{1,2}\-[0-9]{1,2}$\<close> under \<open>re.match\<close>: four digits, one or two
  digits, one or two digits, separated by minus signs; \<open>$\<close> also matches before one final
  newline.
\<close>

definition date_match :: "string \<Rightarrow> bool" where
  "date_match s =
     (let t = (if s \<noteq> [] \<and> last s = CHR 0x0A then butlast s else s)
      in case str_split ''-'' t of
           [y, m, d] \<Rightarrow>
             length y = 4 \<and> list_all is_digit y
             \<and> (length m = 1 \<or> length m = 2) \<and> list_all is_digit m
             \<and> (length d = 1 \<or> length d = 2) \<and> list_all is_digit d
         | _ \<Rightarrow> False)"

definition get_blame_code_line :: "string \<Rightarrow> error + blame_line" where
  "get_blame_code_line li =
     (case str_split1 '')'' li of
        [pre, cl] \<Rightarrow>
          (case str_rpartition '' '' pre of
             (_, _, num) \<Rightarrow> Inr \<lparr>line_num = num, code_line = drop 1 cl\<rparr>)
      | _ \<Rightarrow> Inl ValueError)"

definition get_blame_reviewer :: "string \<Rightarrow> error + string" where
  "get_blame_reviewer li =
     (case index (str_split ''('' li) 1 of
        Inl e \<Rightarrow> Inl e
      | Inr inner \<Rightarrow>
          Inr (str_strip (str_join '' ''
                 (map str_strip
                    (takeWhile (\<lambda>p. \<not> date_match p)
                       (str_split '' '' (hd (str_split '')'' inner))))))))"

text \<open>
  \<open>if reviewer not in d: d[reviewer] = []\<close> followed by \<open>d[reviewer].append(x)\<close>: a new key
  goes to the end of the dictionary, an old key keeps its place.
\<close>

fun add_line :: "(string \<times> 'a list) list \<Rightarrow> string \<Rightarrow> 'a \<Rightarrow> (string \<times> 'a list) list" where
  "add_line [] k v = [(k, [v])]"
| "add_line ((k', vs) # rest) k v =
     (if k' = k then (k', vs @ [v]) # rest else (k', vs) # add_line rest k v)"

text \<open>The body of the inner loop of \<open>get_blame_data\<close>, for one line of blame output.\<close>

definition blame_line_step ::
  "(string \<times> blame_line list) list \<Rightarrow> string \<Rightarrow> error + (string \<times> blame_line list) list" where
  "blame_line_step rs li =
     (if \<not> contains ''('' li \<or> \<not> contains '')'' li then Inr rs
      else (case get_blame_code_line li of
              Inl e \<Rightarrow> Inl e
            | Inr cl \<Rightarrow>
               (case get_blame_reviewer li of
                  Inl e \<Rightarrow> Inl e
                | Inr r \<Rightarrow> Inr (add_line rs r cl))))"

fun blame_lines ::
  "(string \<times> blame_line list) list \<Rightarrow> string list \<Rightarrow> error + (string \<times> blame_line list) list" where
  "blame_lines rs [] = Inr rs"
| "blame_lines rs (li # ls) =
     (case blame_line_step rs li of
        Inl e \<Rightarrow> Inl e
      | Inr rs' \<Rightarrow> blame_lines rs' ls)"

text \<open>The outer loop, over the chunks; \<open>diff_info["file"]\<close> is read once per chunk.\<close>

fun blame_chunks ::
  "check_output \<Rightarrow> string option \<Rightarrow> string \<Rightarrow> (string \<times> blame_line list) list \<Rightarrow> chunk list
   \<Rightarrow> error + (string \<times> blame_line list) list" where
  "blame_chunks co fo branch rs [] = Inr rs"
| "blame_chunks co fo branch rs (c # cs) =
     (case fo of
        None \<Rightarrow> Inl KeyError
      | Some f \<Rightarrow>
         (case get_blame co f (start_line c) (num_lines c) branch of
            Inl e \<Rightarrow> Inl e
          | Inr blame_info \<Rightarrow>
             (case blame_lines rs blame_info of
                Inl e \<Rightarrow> Inl e
              | Inr rs' \<Rightarrow> blame_chunks co fo branch rs' cs)))"

definition get_blame_data :: "check_output \<Rightarrow> diff_info \<Rightarrow> string \<Rightarrow> error + diff_info" where
  "get_blame_data co d branch =
     (case blame_chunks co (file_name d) branch (reviewers d) (chunks d) of
        Inl e \<Rightarrow> Inl e
      | Inr rs \<Rightarrow> Inr (d\<lparr>reviewers := rs\<rparr>))"

section \<open>The pipeline for one raw diff line, and for all of them\<close>

definition get_file_reviewers :: "check_output \<Rightarrow> string \<Rightarrow> string \<Rightarrow> error + diff_info" where
  "get_file_reviewers co li branch =
     (case read_diff_raw_line li of
        Inl e \<Rightarrow> Inl e
      | Inr d \<Rightarrow>
         (if type d = Some ''A'' \<or> type d = None then Inr d
          else (case get_code_chunks co d branch of
                  Inl e \<Rightarrow> Inl e
                | Inr d1 \<Rightarrow> get_blame_data co d1 branch)))"

text \<open>
  The loop of \<open>get_reviewers\<close> that builds \<open>diff_infos\<close>: a record without a type (or with an
  empty one) is dropped, every other record is kept. The coloured echo of each raw line on
  standard error is not modelled.
\<close>

fun file_reviewers_loop ::
  "check_output \<Rightarrow> string \<Rightarrow> string list \<Rightarrow> diff_info list \<Rightarrow> error + diff_info list" where
  "file_reviewers_loop co branch [] acc = Inr acc"
| "file_reviewers_loop co branch (li # ls) acc =
     (case get_file_reviewers co li branch of
        Inl e \<Rightarrow> Inl e
      | Inr d \<Rightarrow>
         (if type d = None \<or> type d = Some [] then file_reviewers_loop co branch ls acc
          else file_reviewers_loop co branch ls (acc @ [d])))"

definition get_diff_infos :: "check_output \<Rightarrow> string \<Rightarrow> error + diff_info list" where
  "get_diff_infos co branch =
     (case get_diff_raw co branch of
        Inl e \<Rightarrow> Inl e
      | Inr raw \<Rightarrow> file_reviewers_loop co branch raw [])"

section \<open>Decimal arithmetic\<close>

text \<open>
  \<open>decimal.Decimal\<close> under the default context (precision 28, ROUND_HALF_EVEN), for the
  non-negative finite numbers the aggregation computes with: a coefficient and an exponent,
  the number being \<open>dec_int * 10 ^ dec_exp\<close>. The operations follow the library's reference
  implementation step by step. The exponent limits of the context (beyond \<open>10 ^ 999999\<close>) are
  not modelled.
\<close>

record decimal =
  dec_int :: nat
  dec_exp :: int

definition prec :: nat where
  "prec = 28"

text \<open>\<open>len(str(n))\<close>: the number of decimal digits; zero has one.\<close>

fun ndigits :: "nat \<Rightarrow> nat" where
  "ndigits n = (if n < 10 then 1 else Suc (ndigits (n div 10)))"

declare ndigits.simps [simp del]

definition Decimal :: "nat \<Rightarrow> decimal" where
  "Decimal n = \<lparr>dec_int = n, dec_exp = 0\<rparr>"

text \<open>Dropping the last \<open>d\<close> digits of a coefficient, rounding half to even.\<close>

definition round_half_even :: "nat \<Rightarrow> nat \<Rightarrow> nat" where
  "round_half_even c d =
     (let q = c div 10 ^ d; r = c mod 10 ^ d
      in if 2 * r > 10 ^ d \<or> (2 * r = 10 ^ d \<and> odd q) then q + 1 else q)"

text \<open>\<open>_fix\<close>: bring a result back to at most \<open>prec\<close> digits.\<close>

definition dec_fix :: "decimal \<Rightarrow> decimal" where
  "dec_fix x =
     (if ndigits (dec_int x) > prec
      then (let d = ndigits (dec_int x) - prec; q = round_half_even (dec_int x) d
            in if ndigits q > prec then \<lparr>dec_int = q div 10, dec_exp = dec_exp x + int d + 1\<rparr>
               else \<lparr>dec_int = q, dec_exp = dec_exp x + int d\<rparr>)
      else x)"

text \<open>The loop of the exact case of a division: remove trailing zeros up to the ideal exponent.\<close>

function strip_zeros :: "nat \<Rightarrow> int \<Rightarrow> int \<Rightarrow> nat \<times> int" where
  "strip_zeros coeff ex ideal =
     (if ex < ideal \<and> coeff mod 10 = 0 then strip_zeros (coeff div 10) (ex + 1) ideal
      else (coeff, ex))"
  by pat_completeness auto
termination
  by (relation "measure (\<lambda>(coeff, ex, ideal). nat (ideal - ex))") auto

declare strip_zeros.simps [simp del]

definition dec_div :: "decimal \<Rightarrow> decimal \<Rightarrow> error + decimal" where
  "dec_div a b =
     (if dec_int b = 0 then (if dec_int a = 0 then Inl InvalidOperation else Inl DivisionByZero)
      else if dec_int a = 0 then Inr (dec_fix \<lparr>dec_int = 0, dec_exp = dec_exp a - dec_exp b\<rparr>)
      else
        (let shift = int (ndigits (dec_int b)) - int (ndigits (dec_int a)) + int prec + 1;
             ex = dec_exp a - dec_exp b - shift;
             num = (if shift \<ge> 0 then dec_int a * 10 ^ nat shift else dec_int a);
             den = (if shift \<ge> 0 then dec_int b else dec_int b * 10 ^ nat (- shift));
             coeff = num div den;
             remainder = num mod den
         in if remainder \<noteq> 0
            then Inr (dec_fix \<lparr>dec_int = (if coeff mod 5 = 0 then coeff + 1 else coeff),
                               dec_exp = ex\<rparr>)
            else (case strip_zeros coeff ex (dec_exp a - dec_exp b) of
                    (c, e) \<Rightarrow> Inr (dec_fix \<lparr>dec_int = c, dec_exp = e\<rparr>))))"

definition dec_mul :: "decimal \<Rightarrow> decimal \<Rightarrow> decimal" where
  "dec_mul a b = dec_fix \<lparr>dec_int = dec_int a * dec_int b, dec_exp = dec_exp a + dec_exp b\<rparr>"

text \<open>\<open>round(x, n)\<close> is \<open>x.quantize(Decimal('1E-n'))\<close>; \<open>dec_quantize x e\<close> rescales to the
  exponent \<open>e\<close> and refuses a result of more than \<open>prec\<close> digits.\<close>

definition dec_quantize :: "decimal \<Rightarrow> int \<Rightarrow> error + decimal" where
  "dec_quantize x e =
     (if dec_int x = 0 then Inr \<lparr>dec_int = 0, dec_exp = e\<rparr>
      else if int (ndigits (dec_int x)) + dec_exp x - e > int prec then Inl InvalidOperation
      else
        (let c = (if dec_exp x \<ge> e then dec_int x * 10 ^ nat (dec_exp x - e)
                  else round_half_even (dec_int x) (nat (e - dec_exp x)))
         in if ndigits c > prec then Inl InvalidOperation else Inr \<lparr>dec_int = c, dec_exp = e\<rparr>))"

definition dec_round :: "decimal \<Rightarrow> nat \<Rightarrow> error + decimal" where
  "dec_round x n = dec_quantize x (- int n)"

text \<open>The number a decimal stands for.\<close>

definition dec_val :: "decimal \<Rightarrow> real" where
  "dec_val x = real (dec_int x) * 10 powi dec_exp x"

section \<open>Reviewer aggregation\<close>

text \<open>\<open>if k not in d: d[k] = 0\<close> followed by \<open>d[k] += n\<close>.\<close>

fun add_count :: "(string \<times> nat) list \<Rightarrow> string \<Rightarrow> nat \<Rightarrow> (string \<times> nat) list" where
  "add_count [] k n = [(k, 0 + n)]"
| "add_count ((k', m) # rest) k n =
     (if k' = k then (k', m + n) # rest else (k', m) # add_count rest k n)"

text \<open>
  The inner loop of \<open>get_total_reviewers\<close> over the authors of one record (a dictionary has
  each key once, so walking the entries is walking the keys), and the outer loop over the
  records. \<open>u\<close> is \<open>current_user.strip()\<close>.
\<close>

fun count_record ::
  "string \<Rightarrow> (string \<times> nat) list \<Rightarrow> (string \<times> blame_line list) list \<Rightarrow> (string \<times> nat) list" where
  "count_record u tot [] = tot"
| "count_record u tot ((r, ls) # rest) =
     (if u = r then count_record u tot rest
      else count_record u (add_count tot r (length ls)) rest)"

fun count_records :: "string \<Rightarrow> (string \<times> nat) list \<Rightarrow> diff_info list \<Rightarrow> (string \<times> nat) list" where
  "count_records u tot [] = tot"
| "count_records u tot (d # ds) = count_records u (count_record u tot (reviewers d)) ds"

text \<open>\<open>round((Decimal(n) / total_lines) * 100, 2)\<close>.\<close>

definition percentage :: "nat \<Rightarrow> nat \<Rightarrow> error + decimal" where
  "percentage n total_lines =
     (case dec_div (Decimal n) (Decimal total_lines) of
        Inl e \<Rightarrow> Inl e
      | Inr q \<Rightarrow> dec_round (dec_mul q (Decimal 100)) 2)"

fun add_percentages ::
  "nat \<Rightarrow> (string \<times> nat) list \<Rightarrow> error + (string \<times> nat \<times> decimal) list" where
  "add_percentages total_lines [] = Inr []"
| "add_percentages total_lines ((k, n) # rest) =
     (case percentage n total_lines of
        Inl e \<Rightarrow> Inl e
      | Inr p \<Rightarrow>
         (case add_percentages total_lines rest of
            Inl e \<Rightarrow> Inl e
          | Inr ps \<Rightarrow> Inr ((k, n, p) # ps)))"

text \<open>
  \<open>sorted(..., key=lambda k: k[1], reverse=True)\<close> is a stable sort by descending count:
  entries with equal counts keep their order.
\<close>

definition sort_reviewers :: "(string \<times> nat) list \<Rightarrow> (string \<times> nat) list" where
  "sort_reviewers xs = sort_key (\<lambda>e. - int (snd e)) xs"

definition get_total_reviewers ::
  "check_output \<Rightarrow> diff_info list \<Rightarrow> error + (string \<times> nat \<times> decimal) list" where
  "get_total_reviewers co diff_infos =
     (case get_git_user co of
        Inl e \<Rightarrow> Inl e
      | Inr current_user \<Rightarrow>
         (let total_reviewers = count_records (str_strip current_user) [] diff_infos;
              total_reviewers_list = sort_reviewers total_reviewers;
              total_lines = sum_list (map snd total_reviewers_list)
          in add_percentages total_lines total_reviewers_list))"

section \<open>The lines of one contributer\<close>

text \<open>
  \<open>int(s)\<close> for a text: surrounding white space is dropped, a sign may lead, and the digits may
  be grouped by single underscores. (The interpreter's limit on the number of digits is not
  modelled.)
\<close>

fun int_digits :: "string \<Rightarrow> nat \<Rightarrow> nat option" where
  "int_digits [] acc = None"
| "int_digits [c] acc = (if is_digit c then Some (acc * 10 + (of_char c - 48)) else None)"
| "int_digits (c # u # cs) acc =
     (if is_digit c
      then (if u = CHR ''_'' then int_digits cs (acc * 10 + (of_char c - 48))
            else int_digits (u # cs) (acc * 10 + (of_char c - 48)))
      else None)"

definition py_int :: "string \<Rightarrow> error + int" where
  "py_int s =
     (case str_strip s of
        [] \<Rightarrow> Inl ValueError
      | c # cs \<Rightarrow>
         (if c = CHR ''-'' then (case int_digits cs 0 of None \<Rightarrow> Inl ValueError | Some n \<Rightarrow> Inr (- int n))
          else if c = CHR ''+'' then (case int_digits cs 0 of None \<Rightarrow> Inl ValueError | Some n \<Rightarrow> Inr (int n))
          else (case int_digits (c # cs) 0 of None \<Rightarrow> Inl ValueError | Some n \<Rightarrow> Inr (int n))))"

text \<open>
  \<open>shl.print_section(shl.BOLD, from_hash, file, file=output)\<close> appends one text to the list
  \<open>output\<close>: the pieces joined by single spaces, and the end-of-line.
\<close>

definition print_section :: "string \<Rightarrow> string \<Rightarrow> string" where
  "print_section h f =
     str_join '' '' [[CHR 0x0A, CHR 0x0A], replicate 60 CHR ''#'', [CHR 0x0A], ''# '', h, f,
                     [CHR 0x0A], replicate 60 CHR ''#'', [CHR 0x0A]] @ [CHR 0x0A]"

text \<open>\<open>"{line_num: >5}|\t{code_line}".format(...)\<close>: the number right-aligned in five columns.\<close>

definition format_line :: "string \<Rightarrow> string \<Rightarrow> string" where
  "format_line num code = replicate (5 - length num) CHR '' '' @ num @ [CHR ''|'', CHR 0x09] @ code"

definition gap_marker :: "string list" where
  "gap_marker = [''    .'', ''    .'', ''    .'']"

text \<open>
  The loop over the lines of one record. \<open>highlight\<close> is the syntax highlighter when the
  library can be imported and \<open>None\<close> when the import fails; \<open>prev_line\<close> starts as \<open>None\<close>, and
  \<open>if prev_line and ...\<close> is false for \<open>None\<close> and for 0.
\<close>

fun contributer_lines ::
  "(string \<Rightarrow> string) option \<Rightarrow> int option \<Rightarrow> blame_line list \<Rightarrow> error + string list" where
  "contributer_lines highlight prev_line [] = Inr []"
| "contributer_lines highlight prev_line (l # ls) =
     (let code = (case highlight of Some h \<Rightarrow> h (code_line l) | None \<Rightarrow> code_line l)
      in case py_int (line_num l) of
           Inl e \<Rightarrow> Inl e
         | Inr cur_line \<Rightarrow>
            (case contributer_lines highlight (Some cur_line) ls of
               Inl e \<Rightarrow> Inl e
             | Inr out \<Rightarrow>
                Inr ((if (case prev_line of None \<Rightarrow> False
                                          | Some p \<Rightarrow> p \<noteq> 0 \<and> p + 1 < cur_line)
                      then gap_marker else [])
                     @ [format_line (line_num l) (str_rstrip code)] @ out)))"

text \<open>The loop over the records: the list \<open>output\<close>.\<close>

fun contributer_output ::
  "(string \<Rightarrow> string) option \<Rightarrow> string \<Rightarrow> diff_info list \<Rightarrow> error + string list" where
  "contributer_output highlight contributer [] = Inr []"
| "contributer_output highlight contributer (d # ds) =
     (case map_of (reviewers d) contributer of
        None \<Rightarrow> contributer_output highlight contributer ds
      | Some ls \<Rightarrow>
         (if ls = [] then contributer_output highlight contributer ds
          else (case from_hash d of
                  None \<Rightarrow> Inl KeyError
                | Some h \<Rightarrow>
                   (case file_name d of
                      None \<Rightarrow> Inl KeyError
                    | Some f \<Rightarrow>
                       (case contributer_lines highlight None ls of
                          Inl e \<Rightarrow> Inl e
                        | Inr out \<Rightarrow>
                           (case contributer_output highlight contributer ds of
                              Inl e \<Rightarrow> Inl e
                            | Inr rest \<Rightarrow>
                               Inr ([print_section h f] @ out @ [[CHR 0x0A, CHR 0x0A]] @ rest)))))))"

text \<open>The text handed to the pager.\<close>

definition print_contributer_lines ::
  "(string \<Rightarrow> string) option \<Rightarrow> string \<Rightarrow> diff_info list \<Rightarrow> error + string" where
  "print_contributer_lines highlight contributer diff_infos =
     (case contributer_output highlight contributer diff_infos of
        Inl e \<Rightarrow> Inl e
      | Inr output \<Rightarrow> Inr (str_join [CHR 0x0A] output))"

text \<open>
  \<open>get_reviewers\<close>: the page of a contributer when one is named (\<open>if contributer:\<close> is false
  for \<open>None\<close> and for the empty text), the ranking otherwise.
\<close>

datatype report = Page string | Suggested "(string \<times> nat \<times> decimal) list"

definition get_reviewers ::
  "check_output \<Rightarrow> (string \<Rightarrow> string) option \<Rightarrow> string option \<Rightarrow> string \<Rightarrow> error + report" where
  "get_reviewers co highlight contributer branch =
     (case get_diff_infos co branch of
        Inl e \<Rightarrow> Inl e
      | Inr diff_infos \<Rightarrow>
         (if contributer \<noteq> None \<and> contributer \<noteq> Some []
          then (case print_contributer_lines highlight (the contributer) diff_infos of
                  Inl e \<Rightarrow> Inl e | Inr t \<Rightarrow> Inr (Page t))
          else (case get_total_reviewers co diff_infos of
                  Inl e \<Rightarrow> Inl e | Inr r \<Rightarrow> Inr (Suggested r))))"

section \<open>Quantities the properties speak about\<close>

text \<open>
  The number of lines attributed to author \<open>a\<close> over all records, and the number of lines
  attributed to all authors other than \<open>u\<close>.
\<close>

definition author_total :: "string \<Rightarrow> diff_info list \<Rightarrow> nat" where
  "author_total a ds =
     sum_list (map (\<lambda>e. length (snd e)) (filter (\<lambda>e. fst e = a) (concat (map reviewers ds))))"

definition included_total :: "string \<Rightarrow> diff_info list \<Rightarrow> nat" where
  "included_total u ds =
     sum_list (map (\<lambda>e. length (snd e)) (filter (\<lambda>e. fst e \<noteq> u) (concat (map reviewers ds))))"

definition authors :: "diff_info list \<Rightarrow> string set" where
  "authors ds = fst ` set (concat (map reviewers ds))"

text \<open>The count a dictionary of totals holds for an author (0 when the author is absent), and
  the number of lines one record attributes to an author.\<close>

definition count_of :: "(string \<times> nat) list \<Rightarrow> string \<Rightarrow> nat" where
  "count_of tot a = (case map_of tot a of None \<Rightarrow> 0 | Some m \<Rightarrow> m)"

definition lines_of :: "string \<Rightarrow> (string \<times> blame_line list) list \<Rightarrow> nat" where
  "lines_of a es = sum_list (map (\<lambda>e. length (snd e)) (filter (\<lambda>e. fst e = a) es))"

text \<open>The condition under which the gap marker is written before a line.\<close>

definition gap_before :: "int option \<Rightarrow> int \<Rightarrow> bool" where
  "gap_before prev_line cur_line =
     (case prev_line of None \<Rightarrow> False | Some p \<Rightarrow> p \<noteq> 0 \<and> p + 1 < cur_line)"

section \<open>A sample repository\<close>

text \<open>
  Answers of git for a small repository, used to run the pipeline on concrete input. The
  user is carol. Against \<open>master\<close> the working tree modifies \<open>app.py\<close>, changes the type of
  \<open>link\<close> (status \<open>T\<close>) and adds \<open>new.py\<close>; against \<open>develop\<close> it adds \<open>new.py\<close> and modifies a line
  of \<open>app.py\<close> that carol wrote herself; against \<open>fixes\<close> it modifies \<open>fix.patch\<close>, a file whose
  own text contains a hunk header.
\<close>

definition nl :: string where
  "nl = [CHR 0x0A]"

definition tab :: string where
  "tab = [CHR 0x09]"

definition sample_git :: check_output where
  "sample_git args =
     (if args = [''git'', ''config'', ''--get'', ''user.name''] then Inr (''carol'' @ nl)
      else if args = [''git'', ''--no-pager'', ''diff'', ''--raw'', ''master''] then
        Inr ('':100644 100644 1111111 2222222 M'' @ tab @ ''app.py'' @ nl
             @ '':100644 120000 3333333 4444444 T'' @ tab @ ''link'' @ nl
             @ '':000000 100644 0000000 5555555 A'' @ tab @ ''new.py'' @ nl)
      else if args = [''git'', ''--no-pager'', ''diff'', ''master'', ''--'', ''app.py''] then
        Inr (''--- a/app.py'' @ nl @ ''+++ b/app.py'' @ nl @ ''@@ -10,2 +10,3 @@ def f():'' @ nl
             @ ''-x'' @ nl @ ''-y'' @ nl @ ''+z'' @ nl)
      else if args = [''git'', ''--no-pager'', ''blame'', ''-L'', ''10,+2'', ''master'', ''--'', ''app.py''] then
        Inr (''1111111 (alice 2020-01-02 10) x'' @ nl @ ''1111111 (carol 2020-01-02 11) y'' @ nl)
      else if args = [''git'', ''--no-pager'', ''diff'', ''master'', ''--'', ''link''] then
        Inr (''@@ -1,2 +1,1 @@'' @ nl @ ''-a'' @ nl @ ''-b'' @ nl @ ''+c'' @ nl)
      else if args = [''git'', ''--no-pager'', ''blame'', ''-L'', ''1,+2'', ''master'', ''--'', ''link''] then
        Inr (''3333333 (bob 2021-03-04 1) a'' @ nl @ ''3333333 (bob 2021-03-04 2) b'' @ nl)
      else if args = [''git'', ''--no-pager'', ''diff'', ''--raw'', ''develop''] then
        Inr ('':000000 100644 0000000 5555555 A'' @ tab @ ''new.py'' @ nl
             @ '':100644 100644 1111111 2222222 M'' @ tab @ ''app.py'' @ nl)
      else if args = [''git'', ''--no-pager'', ''diff'', ''develop'', ''--'', ''app.py''] then
        Inr (''@@ -11,1 +11,1 @@'' @ nl @ ''-y'' @ nl @ ''+z'' @ nl)
      else if args = [''git'', ''--no-pager'', ''blame'', ''-L'', ''11,+1'', ''develop'', ''--'', ''app.py''] then
        Inr (''1111111 (carol 2020-01-02 11) y'' @ nl)
      else if args = [''git'', ''--no-pager'', ''diff'', ''--raw'', ''fixes''] then
        Inr ('':100644 100644 6666666 7777777 M'' @ tab @ ''fix.patch'' @ nl)
      else if args = [''git'', ''--no-pager'', ''diff'', ''fixes'', ''--'', ''fix.patch''] then
        Inr (''@@ -15,2 +15,2 @@'' @ nl @ '' @@ -10,1 +10,1 @@'' @ nl @ ''-p'' @ nl @ ''+q'' @ nl)
      else if args = [''git'', ''--no-pager'', ''blame'', ''-L'', ''15,+2'', ''fixes'', ''--'', ''fix.patch''] then
        Inr (''6666666 (bob 2021-03-04 15) @@ -10,1 +10,1 @@'' @ nl @ ''6666666 (bob 2021-03-04 16) p'' @ nl)
      else if args = [''git'', ''--no-pager'', ''blame'', ''-L'', ''10,+1'', ''fixes'', ''--'', ''fix.patch''] then
        Inr (''6666666 (bob 2021-03-04 10) r'' @ nl)
      else Inl CalledProcessError)"

text \<open>A record with the attributions alice: 10 lines, bob: 5 lines, currentUser: 100 lines.\<close>

definition some_line :: blame_line where
  "some_line = \<lparr>line_num = ''1'', code_line = ''pass''\<rparr>"

definition example_record :: diff_info where
  "example_record =
     \<lparr>line = [], reviewers = [(''alice'', replicate 10 some_line), (''bob'', replicate 5 some_line),
                              (''currentUser'', replicate 100 some_line)],
      chunks = [], parts = [], raw_info = [],
      from_mode = None, to_mode = None, from_hash = None, to_hash = None,
      type_info = None, type = Some ''M'', file_name = None, to_file = None\<rparr>"

text \<open>A record whose lines of bob have the numbers 10, 11, 15 and 16.\<close>

definition gap_record :: diff_info where
  "gap_record =
     \<lparr>line = [], reviewers = [(''bob'', [\<lparr>line_num = ''10'', code_line = ''a''\<rparr>,
                                          \<lparr>line_num = ''11'', code_line = ''b''\<rparr>,
                                          \<lparr>line_num = ''15'', code_line = ''c''\<rparr>,
                                          \<lparr>line_num = ''16'', code_line = ''d''\<rparr>])],
      chunks = [], parts = [], raw_info = [],
      from_mode = None, to_mode = None, from_hash = Some ''1111111'', to_hash = None,
      type_info = None, type = Some ''M'', file_name = Some ''app.py'', to_file = None\<rparr>"

section \<open>Facts about splitting\<close>

lemma str_split_nonempty: "str_split sep s \<noteq> []"
  by (induction sep s rule: str_split.induct) (auto simp: Let_def)

lemma str_split_char_notin: "c \<notin> set a \<Longrightarrow> str_split [c] a = [a]"
  by (induction a) auto

lemma str_split_char_first:
  "c \<notin> set a \<Longrightarrow> str_split [c] (a @ c # rest) = a # str_split [c] rest"
  by (induction a) auto

lemma hd_str_split_at2:
  "CHR ''@'' \<notin> set a \<Longrightarrow> hd (str_split ''@@'' (a @ t)) = a @ hd (str_split ''@@'' t)"
  by (induction a) (auto simp: Let_def)

lemma str_split_at2_head: "str_split ''@@'' (''@@'' @ s) = [] # str_split ''@@'' s"
  by simp

lemma contains_char: "contains [c] s \<longleftrightarrow> c \<in> set s"
  by (induction s) auto

lemma index_Cons_1: "xs \<noteq> [] \<Longrightarrow> index (x # xs) (Suc 0) = Inr (hd xs)"
  by (cases xs) (auto simp: index_def)

declare str_split.simps [simp del]

section \<open>Chunk extraction reads the first range of a hunk header\<close>

lemma hunk_chunk_minus_side:
  assumes a: "CHR ''@'' \<notin> set a" "CHR '' '' \<notin> set a" "CHR '','' \<notin> set a"
      and b: "CHR ''@'' \<notin> set b" "CHR '' '' \<notin> set b" "CHR '','' \<notin> set b"
  shows "hunk_chunk (''@@ -'' @ a @ '','' @ b @ '' '' @ rest)
         = Inr \<lparr>start_line = a, num_lines = b\<rparr>"
proof -
  let ?tok = "''-'' @ a @ '','' @ b"
  obtain t' where t': "hd (str_split ''@@'' rest) = t'" by simp
  have mid: "index (str_split ''@@'' (''@@ -'' @ a @ '','' @ b @ '' '' @ rest)) 1
             = Inr ('' '' @ ?tok @ '' '' @ t')"
  proof -
    have "hd (str_split ''@@'' (('' '' @ ?tok @ '' '') @ rest)) = ('' '' @ ?tok @ '' '') @ t'"
      using a b t' by (subst hd_str_split_at2) auto
    moreover have "str_split ''@@'' (''@@ -'' @ a @ '','' @ b @ '' '' @ rest)
                   = [] # str_split ''@@'' (('' '' @ ?tok @ '' '') @ rest)"
      using str_split_at2_head [of "('' '' @ ?tok @ '' '') @ rest"] by simp
    ultimately show ?thesis
      by (simp add: index_Cons_1 str_split_nonempty)
  qed
  have "CHR '' '' \<notin> set ?tok" using a b by simp
  then have "str_split '' '' (?tok @ CHR '' '' # t') = ?tok # str_split '' '' t'"
    by (rule str_split_char_first)
  moreover have "str_split '' '' ('' '' @ ?tok @ '' '' @ t')
                 = [] # str_split '' '' (?tok @ CHR '' '' # t')"
    using str_split_char_first [of "CHR '' ''" "[]" "?tok @ CHR '' '' # t'"] by simp
  ultimately have tok: "index (str_split '' '' ('' '' @ ?tok @ '' '' @ t')) 1 = Inr ?tok"
    by (simp add: index_def)
  have "str_split '','' (a @ CHR '','' # b) = a # str_split '','' b"
    using a by (intro str_split_char_first)
  then have "str_split '','' (drop 1 ?tok) = [a, b]"
    using b by (simp add: str_split_char_notin)
  with mid tok show ?thesis
    unfolding hunk_chunk_def by simp
qed

text \<open>
  C1, as the code has it. For a hunk header \<open>@@ -a,b +c,d @@\<close> (whatever follows it, and
  whatever \<open>c\<close> and \<open>d\<close> are), the chunk that is appended has \<open>start_line = a\<close> and
  \<open>num_lines = b\<close>: the range after the minus sign, which is the side of the branch that
  \<open>git diff branch\<close> compares against and that \<open>git blame ... branch\<close> is then asked about.
  The range after the plus sign is not read.
\<close>

theorem code_chunks_keeps_minus_side:
  assumes "CHR ''@'' \<notin> set a" "CHR '' '' \<notin> set a" "CHR '','' \<notin> set a"
      and "CHR ''@'' \<notin> set b" "CHR '' '' \<notin> set b" "CHR '','' \<notin> set b"
  shows "code_chunks ((''@@ -'' @ a @ '','' @ b @ '' +'' @ c @ '','' @ d @ '' @@'' @ rest) # ls) acc
         = code_chunks ls (acc @ [\<lparr>start_line = a, num_lines = b\<rparr>])"
proof -
  have "hunk_chunk (''@@ -'' @ a @ '','' @ b @ '' '' @ (''+'' @ c @ '','' @ d @ '' @@'' @ rest))
        = Inr \<lparr>start_line = a, num_lines = b\<rparr>"
    using assms by (rule hunk_chunk_minus_side)
  then show ?thesis by simp
qed

theorem code_chunks_keeps_minus_side_witness:
  "code_chunks [''@@ -1,3 +5,2 @@''] [] = Inr [\<lparr>start_line = ''1'', num_lines = ''3''\<rparr>]"
  using code_chunks_keeps_minus_side [of "''1''" "''3''" "''5''" "''2''" "[]" "[]" "[]"]
  by simp

text \<open>
  The header \<open>@@ -1,3 +5,2 @@\<close> does not give the range 5, 2.
\<close>

theorem code_chunks_plus_side_counterexample:
  "code_chunks [''@@ -1,3 +5,2 @@''] [] \<noteq> Inr [\<lparr>start_line = ''5'', num_lines = ''2''\<rparr>]"
  by (simp add: hunk_chunk_def index_def str_split.simps)

text \<open>
  C3. A hunk header whose range has no count, as git writes it for a hunk of one line, makes
  the unpacking of \<open>line_chunk.split(",")\<close> into two names fail: chunk extraction raises
  ValueError instead of taking the count to be 1.
\<close>

theorem code_chunks_omitted_count_raises:
  "code_chunks [''@@ -1 +1 @@''] [] = Inl ValueError
   \<and> code_chunks [''@@ -1 +5 @@''] [] = Inl ValueError"
  by (simp add: hunk_chunk_def index_def str_split.simps)

section \<open>More facts about splitting, joining and stripping\<close>

lemma str_partition_char_found:
  "c \<in> set s \<Longrightarrow> \<exists>b a. str_partition [c] s = (b, True, a)"
  by (induction s) (auto split: prod.splits)

lemma str_partition_char_first:
  "c \<notin> set a \<Longrightarrow> str_partition [c] (a @ c # rest) = (a, True, rest)"
  by (induction a) auto

lemma str_partition_char_notin:
  "c \<notin> set a \<Longrightarrow> str_partition [c] a = (a, False, [])"
  by (induction a) auto

lemma str_split_char_length:
  "c \<in> set s \<Longrightarrow> 2 \<le> length (str_split [c] s)"
proof (induction s)
  case Nil
  then show ?case by simp
next
  case (Cons x s)
  show ?case
  proof (cases "x = c")
    case True
    then show ?thesis
      using str_split_nonempty [of "[c]" s]
      by (cases "str_split [c] s") (auto simp: str_split.simps)
  next
    case False
    with Cons have "2 \<le> length (str_split [c] s)" by simp
    with False show ?thesis
      by (cases "str_split [c] s") (auto simp: str_split.simps Let_def)
  qed
qed


lemma hd_str_split_char:
  "c \<notin> set a \<Longrightarrow> hd (str_split [c] (a @ t)) = a @ hd (str_split [c] t)"
  by (induction a) (auto simp: str_split.simps Let_def)

lemma str_split_join:
  "toks \<noteq> [] \<Longrightarrow> \<forall>t\<in>set toks. c \<notin> set t \<Longrightarrow> str_split [c] (str_join [c] toks) = toks"
proof (induction "[c]" toks rule: str_join.induct)
  case 1
  then show ?case by simp
next
  case (2 x)
  then show ?case by (simp add: str_split_char_notin)
next
  case (3 x y ys)
  then have "str_split [c] (x @ c # str_join [c] (y # ys)) = x # str_split [c] (str_join [c] (y # ys))"
    by (intro str_split_char_first) simp
  with 3 show ?case by simp
qed

lemma str_join_split: "str_join [c] (str_split [c] s) = s"
proof (induction s)
  case Nil
  then show ?case by (simp add: str_split.simps)
next
  case (Cons x s)
  obtain p ps where r: "str_split [c] s = p # ps"
    using str_split_nonempty [of "[c]" s] by (cases "str_split [c] s") auto
  show ?case
  proof (cases "x = c")
    case True
    with Cons r show ?thesis by (simp add: str_split.simps)
  next
    case False
    with Cons r show ?thesis by (cases ps) (auto simp: str_split.simps Let_def)
  qed
qed

lemma str_rpartition_last:
  "c \<notin> set num \<Longrightarrow> str_rpartition [c] (pre @ c # num) = (pre, [c], num)"
  using str_partition_char_first [of c "rev num" "rev pre"]
  by (simp add: str_rpartition_def)

lemma str_strip_id:
  "s = [] \<or> (\<not> is_space (hd s) \<and> \<not> is_space (last s)) \<Longrightarrow> str_strip s = s"
proof (cases s)
  case Nil
  then show ?thesis by (simp add: str_strip_def str_lstrip_def str_rstrip_def)
next
  case (Cons x xs)
  assume "s = [] \<or> (\<not> is_space (hd s) \<and> \<not> is_space (last s))"
  with Cons have h: "\<not> is_space x" "\<not> is_space (last s)" by auto
  have "dropWhile is_space s = s" using Cons h by simp
  moreover have "\<not> is_space (hd (rev s))"
    using h(2) by (simp add: hd_rev)
  then have "dropWhile is_space (rev s) = rev s"
    by (simp add: dropWhile_eq_self_iff)
  ultimately show ?thesis by (simp add: str_strip_def str_lstrip_def str_rstrip_def)
qed

lemma blame_reviewer_form:
  assumes "CHR ''('' \<notin> set rv" "CHR ''('' \<notin> set inside" "CHR '')'' \<notin> set inside"
  shows "get_blame_reviewer (rv @ ''('' @ inside @ '')'' @ rest)
         = Inr (str_strip (str_join '' '' (map str_strip
                  (takeWhile (\<lambda>p. \<not> date_match p) (str_split '' '' inside)))))"
proof -
  obtain y where y: "hd (str_split ''('' rest) = y" by simp
  have "str_split ''('' (rv @ CHR ''('' # (inside @ '')'' @ rest))
        = rv # str_split ''('' (inside @ '')'' @ rest)"
    using assms(1) by (rule str_split_char_first)
  moreover have "hd (str_split ''('' ((inside @ '')'') @ rest)) = (inside @ '')'') @ y"
    using assms(2) y by (subst hd_str_split_char) auto
  ultimately have inner: "index (str_split ''('' (rv @ ''('' @ inside @ '')'' @ rest)) 1
                          = Inr (inside @ CHR '')'' # y)"
    by (simp add: index_Cons_1 str_split_nonempty)
  have "str_split '')'' (inside @ CHR '')'' # y) = inside # str_split '')'' y"
    using assms(3) by (rule str_split_char_first)
  with inner show ?thesis
    unfolding get_blame_reviewer_def by simp
qed

lemma blame_code_line_form:
  assumes "CHR '')'' \<notin> set pre"
  shows "get_blame_code_line (pre @ '')'' @ rest)
         = Inr \<lparr>line_num = snd (snd (str_rpartition '' '' pre)), code_line = drop 1 rest\<rparr>"
  using str_partition_char_first [OF assms, of rest]
  by (simp add: get_blame_code_line_def str_split1_def split: prod.splits)

lemma set_str_join: "set (str_join sep toks) \<subseteq> set sep \<union> (\<Union>t\<in>set toks. set t)"
  by (induction sep toks rule: str_join.induct) auto

lemma str_join_snoc: "xs \<noteq> [] \<Longrightarrow> str_join sep (xs @ [x]) = str_join sep xs @ sep @ x"
  by (induction sep xs rule: str_join.induct) auto

lemma hd_str_join: "toks \<noteq> [] \<Longrightarrow> hd toks \<noteq> [] \<Longrightarrow> hd (str_join sep toks) = hd (hd toks)"
  by (induction sep toks rule: str_join.induct) auto

lemma str_join_last_nonempty:
  "toks \<noteq> [] \<Longrightarrow> last toks \<noteq> [] \<Longrightarrow> str_join sep toks \<noteq> []"
  by (induction sep toks rule: str_join.induct) auto

lemma last_str_join:
  "toks \<noteq> [] \<Longrightarrow> last toks \<noteq> [] \<Longrightarrow> last (str_join sep toks) = last (last toks)"
proof (induction sep toks rule: str_join.induct)
  case (3 sep x y ys)
  then have "str_join sep (y # ys) \<noteq> []"
    by (intro str_join_last_nonempty) auto
  with 3 show ?case by simp
qed auto

lemma str_join_eq_Nil: "str_join sep toks = [] \<Longrightarrow> toks = [] \<or> hd toks = []"
  by (induction sep toks rule: str_join.induct) auto

lemma date_match_chars:
  assumes "date_match dt"
  shows "\<forall>ch\<in>set dt. is_digit ch \<or> ch = CHR ''-'' \<or> ch = CHR 0x0A"
proof -
  define t where "t = (if dt \<noteq> [] \<and> last dt = CHR 0x0A then butlast dt else dt)"
  from assms obtain y m d where s: "str_split ''-'' t = [y, m, d]"
    and dig: "list_all is_digit y" "list_all is_digit m" "list_all is_digit d"
    by (auto simp: date_match_def t_def Let_def split: list.splits)
  have "t = str_join ''-'' (str_split ''-'' t)" by (simp add: str_join_split)
  with s have "t = y @ ''-'' @ m @ ''-'' @ d" by simp
  with dig have t: "\<forall>ch\<in>set t. is_digit ch \<or> ch = CHR ''-''"
    by (auto simp: list_all_iff)
  show ?thesis
  proof (cases "dt \<noteq> [] \<and> last dt = CHR 0x0A")
    case True
    then have "dt = t @ [CHR 0x0A]"
      using append_butlast_last_id [of dt] by (simp add: t_def)
    with t show ?thesis by auto
  next
    case False
    then have "dt = t" by (auto simp: t_def)
    with t show ?thesis by auto
  qed
qed

lemma date_match_plain:
  assumes "date_match dt"
  shows "CHR '' '' \<notin> set dt \<and> CHR ''('' \<notin> set dt \<and> CHR '')'' \<notin> set dt"
  using date_match_chars [OF assms] by (auto simp: is_digit_def)


section \<open>Lines of blame output\<close>

lemma blame_code_line_ok:
  assumes "CHR '')'' \<in> set li"
  shows "\<exists>cl. get_blame_code_line li = Inr cl"
proof -
  obtain b a where "str_partition '')'' li = (b, True, a)"
    using str_partition_char_found [OF assms] by blast
  then show ?thesis
    by (simp add: get_blame_code_line_def str_split1_def split: prod.splits)
qed

lemma blame_reviewer_ok:
  assumes "CHR ''('' \<in> set li"
  shows "\<exists>r. get_blame_reviewer li = Inr r"
  using str_split_char_length [OF assms]
  by (simp add: get_blame_reviewer_def index_def)


text \<open>
  C10. A line of blame output that lacks \<open>(\<close> or lacks \<open>)\<close> (one of them is enough) is passed
  over: the loop body returns the attributions as they were, and the loop goes on with the next
  line. A line that has both reaches the two parsers, and there the split at the first \<open>)\<close>
  gives two parts and the split at \<open>(\<close> has an element at index 1, so neither parser raises.
\<close>

theorem blame_line_guard:
  "(\<not> contains ''('' li \<or> \<not> contains '')'' li \<longrightarrow> blame_line_step rs li = Inr rs \<and> blame_lines rs (li # ls) = blame_lines rs ls)
   \<and> (contains ''('' li \<and> contains '')'' li \<longrightarrow>
        (\<exists>cl r. get_blame_code_line li = Inr cl \<and> get_blame_reviewer li = Inr r
                \<and> blame_line_step rs li = Inr (add_line rs r cl)))"
proof -
  have skip: "blame_line_step rs li = Inr rs \<and> blame_lines rs (li # ls) = blame_lines rs ls"
    if "\<not> contains ''('' li \<or> \<not> contains '')'' li"
    using that by (simp add: blame_line_step_def)
  have parse: "\<exists>cl r. get_blame_code_line li = Inr cl \<and> get_blame_reviewer li = Inr r
                \<and> blame_line_step rs li = Inr (add_line rs r cl)"
    if h: "contains ''('' li \<and> contains '')'' li"
  proof -
    obtain cl r where "get_blame_code_line li = Inr cl" "get_blame_reviewer li = Inr r"
      using h blame_code_line_ok [of li] blame_reviewer_ok [of li] by (auto simp: contains_char)
    with h show ?thesis
      by (simp add: blame_line_step_def)
  qed
  from skip parse show ?thesis by blast
qed

theorem blame_line_guard_witness:
  "blame_line_step [] ''0000 (Jane'' = Inr []
   \<and> blame_line_step [] ''12) code'' = Inr []
   \<and> (\<exists>cl r. get_blame_code_line ''ab (J 1) c'' = Inr cl \<and> get_blame_reviewer ''ab (J 1) c'' = Inr r)"
  using blame_line_guard [of "''0000 (Jane''" "[]" "[]"]
        blame_line_guard [of "''12) code''" "[]" "[]"]
        blame_line_guard [of "''ab (J 1) c''" "[]" "[]"]
  by (auto simp: contains_char)


text \<open>
  C6. A blame line of the form \<open><rev> (<author tokens> <date> ... <lineno>) <code>\<close>: the tokens
  are separated by single spaces, the author tokens are non-empty, free of white space and of
  parentheses and not date-shaped, the date token is date-shaped, and further tokens (a time,
  a zone) may stand between the date and the line number. Then the reviewer is the author
  tokens joined by single spaces, the line number is the token before \<open>)\<close>, and the code is
  the text after \<open>)\<close> and one space. The instance below is the line
  \<open>abc123 (Jane Doe 2023-5-1 42) some code\<close>; the line number stays a text, as in the source.
\<close>

theorem blame_line_fields:
  assumes rv: "CHR ''('' \<notin> set rv" "CHR '')'' \<notin> set rv"
    and names: "\<forall>t\<in>set names. t \<noteq> [] \<and> \<not> date_match t
                  \<and> (\<forall>ch\<in>set t. \<not> is_space ch \<and> ch \<noteq> CHR ''('' \<and> ch \<noteq> CHR '')'')"
    and dt: "date_match dt"
    and after: "\<forall>t\<in>set after. \<forall>ch\<in>set t. ch \<noteq> CHR '' '' \<and> ch \<noteq> CHR ''('' \<and> ch \<noteq> CHR '')''"
    and num: "\<forall>ch\<in>set num. ch \<noteq> CHR '' '' \<and> ch \<noteq> CHR ''('' \<and> ch \<noteq> CHR '')''"
  shows "get_blame_reviewer
           (rv @ ''('' @ str_join '' '' (names @ [dt] @ after @ [num]) @ '') '' @ code)
         = Inr (str_join '' '' names)
       \<and> get_blame_code_line
           (rv @ ''('' @ str_join '' '' (names @ [dt] @ after @ [num]) @ '') '' @ code)
         = Inr \<lparr>line_num = num, code_line = code\<rparr>"
proof -
  let ?toks = "names @ [dt] @ after @ [num]"
  let ?inside = "str_join '' '' ?toks"
  have sp: "is_space CHR '' ''" by (simp add: is_space_def)
  have plain: "\<forall>t\<in>set ?toks. CHR '' '' \<notin> set t \<and> CHR ''('' \<notin> set t \<and> CHR '')'' \<notin> set t"
  proof
    fix t assume "t \<in> set ?toks"
    then consider "t \<in> set names" | "t = dt" | "t \<in> set after" | "t = num" by auto
    then show "CHR '' '' \<notin> set t \<and> CHR ''('' \<notin> set t \<and> CHR '')'' \<notin> set t"
    proof cases
      case 1
      with names have "\<forall>ch\<in>set t. \<not> is_space ch \<and> ch \<noteq> CHR ''('' \<and> ch \<noteq> CHR '')''" by blast
      with sp show ?thesis by blast
    next
      case 2
      with date_match_plain [OF dt] show ?thesis by simp
    next
      case 3
      with after show ?thesis by blast
    next
      case 4
      with num show ?thesis by blast
    qed
  qed
  have sub: "set ?inside \<subseteq> {CHR '' ''} \<union> (\<Union>t\<in>set ?toks. set t)"
    using set_str_join [of "'' ''" ?toks] by simp
  have inside: "CHR ''('' \<notin> set ?inside" "CHR '')'' \<notin> set ?inside"
  proof -
    show "CHR ''('' \<notin> set ?inside"
    proof
      assume "CHR ''('' \<in> set ?inside"
      with sub obtain t where "t \<in> set ?toks" "CHR ''('' \<in> set t" by blast
      with plain show False by blast
    qed
    show "CHR '')'' \<notin> set ?inside"
    proof
      assume "CHR '')'' \<in> set ?inside"
      with sub obtain t where "t \<in> set ?toks" "CHR '')'' \<in> set t" by blast
      with plain show False by blast
    qed
  qed
  have split: "str_split '' '' ?inside = ?toks"
    using plain by (intro str_split_join) auto
  have tw: "takeWhile (\<lambda>p. \<not> date_match p) ?toks = names"
    using names dt by (simp add: takeWhile_append2)
  have strip_each: "map str_strip names = names"
  proof (rule map_idI)
    fix t assume "t \<in> set names"
    with names have "t \<noteq> []" "\<not> is_space (hd t)" "\<not> is_space (last t)" by auto
    then show "str_strip t = t" by (simp add: str_strip_id)
  qed
  have strip_all: "str_strip (str_join '' '' names) = str_join '' '' names"
  proof (cases "names = []")
    case True
    then show ?thesis by (simp add: str_strip_id)
  next
    case False
    then have "hd names \<in> set names" "last names \<in> set names" by auto
    with names have ne: "hd names \<noteq> []" "last names \<noteq> []"
      and sp': "\<not> is_space (hd (hd names))" "\<not> is_space (last (last names))"
      by auto
    from False ne sp' show ?thesis
      by (intro str_strip_id) (simp add: hd_str_join last_str_join)
  qed
  have rev1: "get_blame_reviewer (rv @ ''('' @ ?inside @ '')'' @ ('' '' @ code))
              = Inr (str_join '' '' names)"
    using blame_reviewer_form [OF rv(1) inside] split tw strip_each strip_all by simp
  have snoc: "?inside = str_join '' '' (names @ [dt] @ after) @ '' '' @ num"
    using str_join_snoc [of "names @ [dt] @ after" "'' ''" num] by simp
  have "CHR '' '' \<notin> set num" using num by auto
  then have rp: "str_rpartition '' '' ((rv @ ''('' @ str_join '' '' (names @ [dt] @ after)) @ CHR '' '' # num)
             = (rv @ ''('' @ str_join '' '' (names @ [dt] @ after), '' '', num)"
    by (rule str_rpartition_last)
  have "CHR '')'' \<notin> set (rv @ ''('' @ ?inside)" using rv inside by simp
  from blame_code_line_form [OF this, of "'' '' @ code"]
  have "get_blame_code_line (rv @ ''('' @ ?inside @ '')'' @ ('' '' @ code))
        = Inr \<lparr>line_num = snd (snd (str_rpartition '' '' (rv @ ''('' @ ?inside))), code_line = code\<rparr>"
    by simp
  also have "snd (snd (str_rpartition '' '' (rv @ ''('' @ ?inside))) = num"
    using rp snoc by simp
  finally show ?thesis using rev1 by simp
qed

theorem blame_line_fields_witness:
  "get_blame_reviewer ''abc123 (Jane Doe 2023-5-1 42) some code'' = Inr ''Jane Doe''
   \<and> get_blame_code_line ''abc123 (Jane Doe 2023-5-1 42) some code''
       = Inr \<lparr>line_num = ''42'', code_line = ''some code''\<rparr>"
  using blame_line_fields [of "''abc123 ''" "[''Jane'', ''Doe'']" "''2023-5-1''" "[]" "''42''" "''some code''"]
  by (simp add: date_match_def is_digit_def is_space_def str_split.simps Let_def)

section \<open>Added files\<close>

lemma read_diff_raw_line_empty:
  "read_diff_raw_line li = Inr d \<Longrightarrow> chunks d = [] \<and> reviewers d = []"
  by (auto simp: read_diff_raw_line_def Let_def split: if_splits list.splits sum.splits)

lemma get_code_chunks_type: "get_code_chunks co d branch = Inr d' \<Longrightarrow> type d' = type d"
  by (auto simp: get_code_chunks_def split: option.splits sum.splits)

lemma get_blame_data_type: "get_blame_data co d branch = Inr d' \<Longrightarrow> type d' = type d"
  by (auto simp: get_blame_data_def split: option.splits sum.splits)


text \<open>
  C4. When the parsed record of a raw diff line has type \<open>A\<close>, the pipeline returns that very
  record, whatever git would answer: its chunks and its attributions are empty, and neither
  chunk extraction nor blame correlation has run.
\<close>

theorem added_record_untouched:
  assumes "read_diff_raw_line li = Inr d" and "type d = Some ''A''"
  shows "get_file_reviewers co li branch = Inr d \<and> chunks d = [] \<and> reviewers d = []"
  using assms read_diff_raw_line_empty [OF assms(1)]
  by (simp add: get_file_reviewers_def)

theorem added_record_untouched_witness:
  "\<exists>d. read_diff_raw_line ('':000000 100644 0000000 abc1234 A'' @ [CHR 0x09] @ ''new.py'') = Inr d
       \<and> type d = Some ''A''
       \<and> get_file_reviewers (\<lambda>_. Inl CalledProcessError)
             ('':000000 100644 0000000 abc1234 A'' @ [CHR 0x09] @ ''new.py'') ''master'' = Inr d
       \<and> chunks d = [] \<and> reviewers d = []"
proof -
  let ?l = "'':000000 100644 0000000 abc1234 A'' @ [CHR 0x09] @ ''new.py''"
  obtain d where d: "read_diff_raw_line ?l = Inr d" "type d = Some ''A''"
    by (simp add: read_diff_raw_line_def str_split.simps index_def Let_def)
  from added_record_untouched [OF d] d show ?thesis by blast
qed

end
